theory Spec2Isabelle
  imports Main
begin

section \<open>Data model of generator/file.go\<close>

text \<open>
  Go pointers to strings (\<open>*string\<close>, as in the protobuf descriptors) are modelled as
  \<open>string option\<close>, \<open>None\<close> being the nil pointer. Dereferencing nil panics; the panic
  is a value of the model.
\<close>

datatype panic = NilPointerDereference

text \<open>
  Modelled from the spec: the error values declared outside file.go. \<open>ErrFileSkipped\<close> is
  the distinguished "file skipped" signal, \<open>LoggableError\<close> stands for the type
  \<open>loggableError\<close> tested by the type assertion in \<open>ProcessFile\<close>, and
  \<open>OtherError\<close> for every other error value. The string is the text of \<open>Error()\<close>,
  which \<open>%s\<close> prints.
\<close>

datatype error = ErrFileSkipped | LoggableError string | OtherError string

fun isLoggable :: "error \<Rightarrow> bool" where
  "isLoggable (LoggableError s) = True"
| "isLoggable e = False"

text \<open>The extension descriptors \<open>options.E_...\<close> that file.go reads.\<close>

datatype extension = E_GoStruct | E_GoModelsFilePath | E_GoRepoPackage | E_GoProtobufPackage

type_synonym Options = "extension \<rightharpoonup> string"

text \<open>
  The descriptor attributes that file.go reads. The slices of descriptors hold no nil
  element, as the protobuf decoder builds them.
\<close>

record FieldDescriptorProto =
  field_Name :: "string option"

record OneofDescriptorProto =
  oneof_Name :: "string option"

record DescriptorProto =
  msg_Name :: "string option"
  msg_Field :: "FieldDescriptorProto list"
  msg_OneofDecl :: "OneofDescriptorProto list"
  msg_Options :: Options

record FileDescriptorProto =
  file_Name :: "string option"
  file_Package :: "string option"
  file_MessageType :: "DescriptorProto list"
  file_Options :: Options


record messageOption =
  targetName :: string
  oneofDecl :: string

type_synonym MessageOptionList = "string \<rightharpoonup> messageOption"

text \<open>
  Modelled from the spec: the type \<open>Field\<close> (the spec's FieldMapping) is declared outside
  file.go. The attributes are the three that \<open>prefixFields\<close> reads or writes and the
  two field names of the spec; the record is extensible, so a statement about a
  \<open>Field_scheme\<close> covers every further attribute.
\<close>

record Field =
  Name :: string
  ProtoName :: string
  ProtoToGoType :: string
  GoToProtoType :: string
  UsePackage :: bool

text \<open>
  Modelled from the spec: the type \<open>Data\<close> (the spec's MessageTransformRecord) is declared
  outside file.go. The attributes are those of the composite literal in \<open>ProcessFile\<close>.
\<close>

record Data =
  Src :: string
  SrcPref :: string
  SrcFn :: string
  SrcPointer :: string
  Dst :: string
  DstPref :: string
  DstFn :: string
  Fields :: "Field list"

section \<open>The annotation reader\<close>

text \<open>
  Modelled from the spec: \<open>getStringOption\<close> is declared outside file.go. The spec's
  annotation reader returns the named string-valued option of a message's or file's
  options, or signals that it is not present. A nil options pointer is the empty map.
  Which error value signals absence is not specified; file.go never returns it.
\<close>

definition getStringOption :: "Options \<Rightarrow> extension \<Rightarrow> error + string" where
  "getStringOption opts e =
     (case opts e of None \<Rightarrow> Inl (OtherError ''option not found'') | Some s \<Rightarrow> Inr s)"


section \<open>CollectAllMessages\<close>







subsection \<open>The claims' vocabulary for the catalog\<close>





subsection \<open>Example requests\<close>

definition priceMessage :: DescriptorProto where
  "priceMessage =
     \<lparr>msg_Name = Some ''Price'',
      msg_Field = [\<lparr>field_Name = Some ''string_value''\<rparr>, \<lparr>field_Name = Some ''int64_value''\<rparr>],
      msg_OneofDecl = [\<lparr>oneof_Name = Some ''value''\<rparr>],
      msg_Options = Map.empty\<rparr>"

definition itemMessage :: DescriptorProto where
  "itemMessage =
     \<lparr>msg_Name = Some ''Item'',
      msg_Field = [\<lparr>field_Name = Some ''id''\<rparr>, \<lparr>field_Name = Some ''name''\<rparr>,
                   \<lparr>field_Name = Some ''int64_value''\<rparr>],
      msg_OneofDecl = [\<lparr>oneof_Name = Some ''kind''\<rparr>],
      msg_Options = [E_GoStruct \<mapsto> ''ItemModel'']\<rparr>"

definition shopFile :: FileDescriptorProto where
  "shopFile =
     \<lparr>file_Name = Some ''api/shop.proto'', file_Package = Some ''shop'',
      file_MessageType = [priceMessage, itemMessage],
      file_Options = [E_GoModelsFilePath \<mapsto> ''models/shop.go'']\<rparr>"


text \<open>A schema file without a \<open>package\<close> statement: its package pointer is nil.\<close>

definition barePackageFile :: FileDescriptorProto where
  "barePackageFile =
     \<lparr>file_Name = Some ''bare.proto'', file_Package = None,
      file_MessageType = [itemMessage],
      file_Options = Map.empty\<rparr>"

section \<open>prefixFields\<close>

text \<open>
  The loop of \<open>prefixFields\<close> writes element \<open>i\<close> from the copy \<open>f\<close> of element \<open>i\<close>
  and touches no other index, so the in-place update is a pass over the list.
\<close>

fun prefixFields_loop :: "'a Field_scheme list \<Rightarrow> string \<Rightarrow> 'a Field_scheme list" where
  "prefixFields_loop [] prefix = []"
| "prefixFields_loop (f # fs) prefix =
     (if \<not> UsePackage f then f # prefixFields_loop fs prefix
      else f\<lparr>ProtoToGoType := prefix @ ''.'' @ ProtoToGoType f,
             GoToProtoType := prefix @ ''.'' @ GoToProtoType f\<rparr> # prefixFields_loop fs prefix)"

definition prefixFields :: "'a Field_scheme list \<Rightarrow> string \<Rightarrow> 'a Field_scheme list" where
  "prefixFields flds prefix =
     (if prefix = '''' then flds else prefixFields_loop flds prefix)"

section \<open>Path and string functions of the Go library\<close>

text \<open>
  \<open>filepath.Split\<close>, \<open>filepath.Join\<close>, \<open>filepath.Clean\<close> and \<open>strings.Replace\<close> as
  their documentation defines them for slash-separated paths (no volume names).
  \<open>filepath_Split\<close> cuts after the last slash.
\<close>

definition filepath_Split :: "string \<Rightarrow> string \<times> string" where
  "filepath_Split p =
     (let file = rev (takeWhile (\<lambda>c. c \<noteq> CHR ''/'') (rev p))
      in (take (length p - length file) p, file))"

fun strings_Join :: "string list \<Rightarrow> string \<Rightarrow> string" where
  "strings_Join [] sep = ''''"
| "strings_Join [e] sep = e"
| "strings_Join (e # e' # es) sep = e @ sep @ strings_Join (e' # es) sep"

text \<open>The elements between the slashes of a path; a path with \<open>n\<close> slashes has \<open>n + 1\<close>.\<close>

fun pathElements :: "string \<Rightarrow> string list" where
  "pathElements [] = [[]]"
| "pathElements (c # cs) =
     (if c = CHR ''/'' then [] # pathElements cs
      else (case pathElements cs of
              [] \<Rightarrow> [[c]]
            | e # es \<Rightarrow> (c # e) # es))"

text \<open>
  The element loop of \<open>Clean\<close>: the second argument is the output so far, last element
  first. An empty element and \<open>.\<close> are dropped; \<open>..\<close> removes the last real element of
  the output, is kept at the start of a path that is not rooted, and is dropped at the
  root; every other element is appended.
\<close>

fun cleanElements :: "bool \<Rightarrow> string list \<Rightarrow> string list \<Rightarrow> string list" where
  "cleanElements rooted [] out = rev out"
| "cleanElements rooted (e # es) out =
     (if e = '''' \<or> e = ''.'' then cleanElements rooted es out
      else if e = ''..'' then
        (if out \<noteq> [] \<and> hd out \<noteq> ''..'' then cleanElements rooted es (tl out)
         else if \<not> rooted then cleanElements rooted es (''..'' # out)
         else cleanElements rooted es out)
      else cleanElements rooted es (e # out))"

definition filepath_Clean :: "string \<Rightarrow> string" where
  "filepath_Clean p =
     (if p = '''' then ''.''
      else let rooted = (hd p = CHR ''/'');
               out = cleanElements rooted (pathElements p) []
           in if rooted then ''/'' @ strings_Join out ''/''
              else if out = [] then ''.''
              else strings_Join out ''/'')"

text \<open>\<open>Join\<close> ignores leading empty elements, joins the rest with slashes and cleans.\<close>

definition filepath_Join :: "string list \<Rightarrow> string" where
  "filepath_Join elem =
     (case dropWhile (\<lambda>e. e = '''') elem of
        [] \<Rightarrow> ''''
      | e # es \<Rightarrow> filepath_Clean (strings_Join (e # es) ''/''))"

text \<open>
  \<open>strings.Replace(s, old, new, -1)\<close>: every non-overlapping occurrence of \<open>old\<close>, from
  the left. \<open>ProcessFile\<close> calls it with a non-empty \<open>old\<close>; for the empty pattern the
  insertion between bytes is that of Go on ASCII text.
\<close>

function strings_Replace :: "string \<Rightarrow> string \<Rightarrow> string \<Rightarrow> string" where
  "strings_Replace s old new =
     (if old = '''' then new @ concat (map (\<lambda>c. c # new) s)
      else if s = '''' then ''''
      else if take (length old) s = old
      then new @ strings_Replace (drop (length old) s) old new
      else hd s # strings_Replace (tl s) old new)"
  by pat_completeness auto
termination
  by (relation "measure (\<lambda>(s, old, new). length s)") auto

declare strings_Replace.simps [simp del]

section \<open>ProcessFile\<close>

text \<open>
  The functions that \<open>ProcessFile\<close> and \<open>execTemplate\<close> call and file.go does not
  define are parameters of the model. A call that writes to the \<open>io.Writer\<close> returns the
  text it writes; \<open>'structs\<close> is the struct catalog of \<open>source.Parse\<close>, \<open>'tmpl\<close> the
  template of \<open>templateWithHelpers\<close>. \<open>filepath_Abs\<close> depends on the working directory
  and \<open>source_Parse\<close> on the file system. \<open>debugDump\<close> is the text of
  \<open>p(w, "%s", messages)\<close>.
\<close>

record ('structs, 'tmpl) collaborators =
  filepath_Abs :: "string \<Rightarrow> error + string"
  source_Parse :: "string \<Rightarrow> error + 'structs"
  debugDump :: "MessageOptionList \<Rightarrow> string"
  processMessage ::
    "DescriptorProto \<Rightarrow> MessageOptionList \<Rightarrow> 'structs \<Rightarrow> bool \<Rightarrow>
     string \<times> Field list \<times> string \<times> error option"
  templateWithHelpers :: "string \<Rightarrow> error + 'tmpl"
  Execute :: "'tmpl \<Rightarrow> Data \<Rightarrow> string \<times> error option"
  swap :: "Data \<Rightarrow> Data"
  processOneofFields :: "Data list \<Rightarrow> string \<times> error option"

definition version :: string where
  "version = ''<dev>''"

definition header :: "string \<Rightarrow> string" where
  "header v =
     ''// Code generated by protoc-gen-struct-transformer, version: '' @ v @
     ''. DO NOT EDIT.\<newline>''"

definition outputW :: string where
  "outputW = header version"

definition fileHeader :: "string \<Rightarrow> string \<Rightarrow> string \<Rightarrow> string" where
  "fileHeader srcFileName srcFilePackage dstPackage =
     outputW @
     ''// source file: '' @ srcFileName @ ''\<newline>'' @
     ''// source package: '' @ srcFilePackage @ ''\<newline>'' @
     ''\<newline>package '' @ dstPackage @ ''\<newline>''"

definition modelsPath :: "('s, 't) collaborators \<Rightarrow> Options \<Rightarrow> error + string" where
  "modelsPath c opts =
     (case getStringOption opts E_GoModelsFilePath of
        Inl e \<Rightarrow> Inl ErrFileSkipped
      | Inr optionPath \<Rightarrow>
          (case filepath_Abs c optionPath of
             Inl e \<Rightarrow> Inl e
           | Inr p \<Rightarrow> Inr p))"

definition GetName :: "DescriptorProto \<Rightarrow> string" where
  "GetName m = (case msg_Name m of None \<Rightarrow> '''' | Some n \<Rightarrow> n)"

text \<open>
  How a part of \<open>ProcessFile\<close> ends: in a panic, in an early \<open>return "", "", err\<close>, or by
  reaching its end with a value.
\<close>

datatype 'a outcome = Panic panic | Abort error | Done 'a

text \<open>
  The loop over \<open>f.MessageType\<close> (lines 146 to 169). The state is the text written to
  \<open>w\<close> so far and the slice \<open>data\<close>; \<open>helperPackageName\<close> is dereferenced only
  after a message was processed without error.
\<close>

fun processMessages ::
  "('s, 't) collaborators \<Rightarrow> string \<Rightarrow> string \<Rightarrow> string option \<Rightarrow> MessageOptionList \<Rightarrow>
   's \<Rightarrow> bool \<Rightarrow> DescriptorProto list \<Rightarrow> string \<Rightarrow> Data list \<Rightarrow>
   (string \<times> Data list) outcome" where
  "processMessages c protoPackage repoPackage helperPackageName messages structs debug [] w data =
     Done (w, data)"
| "processMessages c protoPackage repoPackage helperPackageName messages structs debug
     (m # ms) w data =
     (case processMessage c m messages structs debug of
        (written, flds, sno, Some e) \<Rightarrow>
          (case e of
             LoggableError msg \<Rightarrow>
               processMessages c protoPackage repoPackage helperPackageName messages structs
                 debug ms (w @ written @ ''// '' @ msg @ ''\<newline>'') data
           | _ \<Rightarrow> Abort e)
      | (written, flds, sno, None) \<Rightarrow>
          (case helperPackageName of
             None \<Rightarrow> Panic NilPointerDereference
           | Some helper \<Rightarrow>
               processMessages c protoPackage repoPackage helperPackageName messages structs
                 debug ms (w @ written)
                 (data @
                  [\<lparr>Src = GetName m, SrcPref = protoPackage, SrcFn = ''Pb'',
                    SrcPointer = ''*'', Dst = sno, DstPref = repoPackage, DstFn = sno,
                    Fields = prefixFields flds helper\<rparr>])))"

text \<open>
  \<open>execTemplate\<close>: for each record the template is fetched, the record is rendered,
  swapped in place and rendered again; the first error ends the loop. The result is
  the text in \<open>w\<close>, the records as the loop leaves them, and the error. The
  pointers of \<open>data\<close> point to distinct records: \<open>ProcessFile\<close> allocates one per
  message.
\<close>

fun execTemplate ::
  "('s, 't) collaborators \<Rightarrow> string \<Rightarrow> Data list \<Rightarrow> string \<times> Data list \<times> error option" where
  "execTemplate c w [] = (w, [], None)"
| "execTemplate c w (d # ds) =
     (case templateWithHelpers c ''messages'' of
        Inl e \<Rightarrow> (w, d # ds, Some e)
      | Inr t \<Rightarrow>
          (case Execute c t d of
             (forward, Some e) \<Rightarrow> (w @ forward, d # ds, Some e)
           | (forward, None) \<Rightarrow>
               (case Execute c t (swap c d) of
                  (reverse, Some e) \<Rightarrow> (w @ forward @ reverse, swap c d # ds, Some e)
                | (reverse, None) \<Rightarrow>
                    (case execTemplate c (w @ forward @ reverse) ds of
                       (w', ds', r) \<Rightarrow> (w', swap c d # ds', r)))))"

text \<open>
  Lines 179 to 185: the destination path, and the text that \<open>fmt.Println(*f.Name)\<close>
  prints to standard output.
\<close>

definition destinationPath ::
  "string option \<Rightarrow> string option \<Rightarrow> bool \<Rightarrow> panic + (string \<times> string)" where
  "destinationPath fileName packageName usePackageInPath =
     (case fileName of
        None \<Rightarrow> Inl NilPointerDereference
      | Some name \<Rightarrow>
          (case filepath_Split name of
             (dir, filename) \<Rightarrow>
               (case (if usePackageInPath then packageName else Some '''') of
                  None \<Rightarrow> Inl NilPointerDereference
                | Some pn \<Rightarrow>
                    Inr (strings_Replace (filepath_Join [dir, pn, filename, ''__'', name])
                           ''.proto'' ''_transformer.go'',
                         name @ ''\<newline>''))))"

text \<open>
  Lines 118 to 169 of \<open>ProcessFile\<close>: up to the end of the message loop. The value is
  the text of \<open>w\<close> and the records of \<open>data\<close> that \<open>execTemplate\<close> receives.
\<close>

definition ProcessFile_records ::
  "('s, 't) collaborators \<Rightarrow> FileDescriptorProto \<Rightarrow> string option \<Rightarrow> string option \<Rightarrow>
   MessageOptionList \<Rightarrow> bool \<Rightarrow> (string \<times> Data list) outcome" where
  "ProcessFile_records c f packageName helperPackageName messages debug =
     (case modelsPath c (file_Options f) of
        Inl e \<Rightarrow> Abort e
      | Inr p \<Rightarrow>
     (case source_Parse c p of
        Inl e \<Rightarrow> Abort e
      | Inr structs \<Rightarrow>
     (case file_Name f of None \<Rightarrow> Panic NilPointerDereference | Some fileName \<Rightarrow>
     (case file_Package f of None \<Rightarrow> Panic NilPointerDereference | Some filePackage \<Rightarrow>
     (case packageName of None \<Rightarrow> Panic NilPointerDereference | Some dstPackage \<Rightarrow>
        let w = fileHeader fileName filePackage dstPackage;
            w = (if debug then w @ debugDump c messages else w);
            repoPackage = (case getStringOption (file_Options f) E_GoRepoPackage of
                             Inl e \<Rightarrow> ''repo1'' | Inr s \<Rightarrow> s);
            protoPackage = (case getStringOption (file_Options f) E_GoProtobufPackage of
                              Inl e \<Rightarrow> ''pb1'' | Inr s \<Rightarrow> s)
        in processMessages c protoPackage repoPackage helperPackageName messages structs
             debug (file_MessageType f) w [])))))"

text \<open>
  \<open>ProcessFile\<close>. The value is the triple that the Go function returns (path, content,
  error) and the text that \<open>fmt.Println(*f.Name)\<close> prints to standard output.
\<close>

definition ProcessFile ::
  "('s, 't) collaborators \<Rightarrow> FileDescriptorProto \<Rightarrow> string option \<Rightarrow> string option \<Rightarrow>
   MessageOptionList \<Rightarrow> bool \<Rightarrow> bool \<Rightarrow>
   panic + ((string \<times> string \<times> error option) \<times> string)" where
  "ProcessFile c f packageName helperPackageName messages debug usePackageInPath =
     (case ProcessFile_records c f packageName helperPackageName messages debug of
        Panic p \<Rightarrow> Inl p
      | Abort e \<Rightarrow> Inr (('''', '''', Some e), '''')
      | Done (w, data) \<Rightarrow>
          (case execTemplate c w data of
             (w1, data1, Some e) \<Rightarrow> Inr (('''', '''', Some e), '''')
           | (w1, data1, None) \<Rightarrow>
               (case processOneofFields c data1 of
                  (written, Some e) \<Rightarrow> Inr (('''', '''', Some e), '''')
                | (written, None) \<Rightarrow>
                    (case destinationPath (file_Name f) packageName usePackageInPath of
                       Inl p \<Rightarrow> Inl p
                     | Inr (absPath, printed) \<Rightarrow>
                         Inr ((absPath, w1 @ written, None), printed)))))"

subsection \<open>The claims' vocabulary for the emission driver\<close>

text \<open>
  The spec's order of renders: each record is rendered, then rendered again with its
  roles swapped, before the next record.
\<close>

fun renderCalls :: "('s, 't) collaborators \<Rightarrow> Data list \<Rightarrow> Data list" where
  "renderCalls c [] = []"
| "renderCalls c (d # ds) = d # swap c d # renderCalls c ds"



text \<open>
  A plain path element: not empty, without a slash and without a dot. Directory names,
  base names and Go package names of this kind are left alone by \<open>filepath.Clean\<close> and
  hold no occurrence of \<open>.proto\<close>.
\<close>

definition plainName :: "string \<Rightarrow> bool" where
  "plainName s \<longleftrightarrow> s \<noteq> '''' \<and> CHR ''/'' \<notin> set s \<and> CHR ''.'' \<notin> set s"

subsection \<open>Example collaborators\<close>

text \<open>
  Modelled from the spec: \<open>Data.swap\<close> is declared outside file.go. The spec's role swap
  exchanges the four name and prefix attributes of source and destination.
\<close>

definition swapRoles :: "Data \<Rightarrow> Data" where
  "swapRoles d = d\<lparr>Src := Dst d, Dst := Src d, SrcPref := DstPref d, DstPref := SrcPref d\<rparr>"

text \<open>
  A run in which the message \<open>Item\<close> resolves to one field that needs the helper
  package, and every other message fails with a loggable error.
\<close>

definition shopCollaborators :: "(unit, unit) collaborators" where
  "shopCollaborators =
     \<lparr>filepath_Abs = (\<lambda>p. Inr (''/work/'' @ p)),
      source_Parse = (\<lambda>p. Inr ()),
      debugDump = (\<lambda>messages. ''''),
      processMessage = (\<lambda>m messages structs debug.
        if msg_Name m = Some ''Item''
        then ('''',
              [\<lparr>Name = ''ID'', ProtoName = ''Id'', ProtoToGoType = ''StringToID'',
                GoToProtoType = ''IDToString'', UsePackage = True\<rparr>],
              ''ItemModel'', None)
        else ('''', [], '''', Some (LoggableError ''no go_struct option''))),
      templateWithHelpers = (\<lambda>name. Inr ()),
      Execute = (\<lambda>t d. (''func '' @ Src d @ ''To'' @ Dst d @ ''\<newline>'', None)),
      swap = swapRoles,
      processOneofFields = (\<lambda>data. ('''', None))\<rparr>"

definition failingCollaborators :: "(unit, unit) collaborators" where
  "failingCollaborators =
     shopCollaborators
       \<lparr>processMessage := (\<lambda>m messages structs debug.
          ('''', [], '''', Some (OtherError ''struct not found'')))\<rparr>"

definition itemRecord :: Data where
  "itemRecord =
     \<lparr>Src = ''Item'', SrcPref = ''pb1'', SrcFn = ''Pb'', SrcPointer = ''*'',
      Dst = ''ItemModel'', DstPref = ''repo1'', DstFn = ''ItemModel'',
      Fields = [\<lparr>Name = ''ID'', ProtoName = ''Id'',
                 ProtoToGoType = ''helperpkg.StringToID'',
                 GoToProtoType = ''helperpkg.IDToString'', UsePackage = True\<rparr>]\<rparr>"

section \<open>Properties of CollectAllMessages\<close>







subsection \<open>The loops as a fold of map updates\<close>



















section \<open>Properties of prefixFields\<close>

lemma length_prefixFields_loop: "length (prefixFields_loop fs p) = length fs"
  by (induction fs) auto

lemma length_prefixFields: "length (prefixFields fs p) = length fs"
  by (simp add: prefixFields_def length_prefixFields_loop)

lemma prefixFields_loop_nth:
  "i < length fs \<Longrightarrow>
   prefixFields_loop fs p ! i =
     (if UsePackage (fs ! i)
      then (fs ! i)\<lparr>ProtoToGoType := p @ ''.'' @ ProtoToGoType (fs ! i),
                     GoToProtoType := p @ ''.'' @ GoToProtoType (fs ! i)\<rparr>
      else fs ! i)"
proof (induction fs arbitrary: i)
  case Nil
  then show ?case by simp
next
  case (Cons f fs)
  show ?case
  proof (cases i)
    case 0
    then show ?thesis by simp
  next
    case (Suc j)
    with Cons.prems have "j < length fs" by simp
    from Cons.IH [OF this] Suc show ?thesis by simp
  qed
qed

text \<open>
  C5. With a non-empty helper-package alias, one application of \<open>prefixFields\<close> keeps
  the length and order of the field list and rewrites, for exactly the fields marked
  \<open>UsePackage\<close>, both conversion expressions to the alias, a dot and the original
  expression; the expressions of the other fields are the original ones.
\<close>

theorem prefixFields_injects_alias:
  assumes "prefix \<noteq> ''''"
  shows "length (prefixFields flds prefix) = length flds \<and>
         (\<forall>i < length flds.
            (UsePackage (flds ! i) \<longrightarrow>
               ProtoToGoType (prefixFields flds prefix ! i) =
                 prefix @ ''.'' @ ProtoToGoType (flds ! i) \<and>
               GoToProtoType (prefixFields flds prefix ! i) =
                 prefix @ ''.'' @ GoToProtoType (flds ! i)) \<and>
            (\<not> UsePackage (flds ! i) \<longrightarrow>
               ProtoToGoType (prefixFields flds prefix ! i) = ProtoToGoType (flds ! i) \<and>
               GoToProtoType (prefixFields flds prefix ! i) = GoToProtoType (flds ! i)))"
  using assms
  by (simp add: prefixFields_def length_prefixFields_loop prefixFields_loop_nth)

theorem prefixFields_injects_alias_witness:
  "prefixFields
     [\<lparr>Name = ''ID'', ProtoName = ''Id'', ProtoToGoType = ''StringToID'',
       GoToProtoType = ''IDToString'', UsePackage = True\<rparr>,
      \<lparr>Name = ''Title'', ProtoName = ''Title'', ProtoToGoType = '''',
       GoToProtoType = '''', UsePackage = False\<rparr>] ''helperpkg''
   = [\<lparr>Name = ''ID'', ProtoName = ''Id'', ProtoToGoType = ''helperpkg.StringToID'',
        GoToProtoType = ''helperpkg.IDToString'', UsePackage = True\<rparr>,
      \<lparr>Name = ''Title'', ProtoName = ''Title'', ProtoToGoType = '''',
        GoToProtoType = '''', UsePackage = False\<rparr>]"
proof -
  let ?fs = "[\<lparr>Name = ''ID'', ProtoName = ''Id'', ProtoToGoType = ''StringToID'',
       GoToProtoType = ''IDToString'', UsePackage = True\<rparr>,
      \<lparr>Name = ''Title'', ProtoName = ''Title'', ProtoToGoType = '''',
       GoToProtoType = '''', UsePackage = False\<rparr>]"
  have ne: "''helperpkg'' \<noteq> ''''" by simp
  note h = prefixFields_injects_alias [OF ne, of ?fs]
  show ?thesis using h by (simp add: prefixFields_def)
qed

text \<open>
  C6. \<open>prefixFields\<close> changes nothing but the two conversion expressions of fields marked
  \<open>UsePackage\<close>: the list keeps its length, a field with \<open>UsePackage\<close> false is
  returned as it was, every field is the original one up to its \<open>ProtoToGoType\<close> and
  \<open>GoToProtoType\<close> (all other attributes, also those of a record extension, are the
  original ones), and with the empty alias the whole list is returned as it was.
\<close>

theorem prefixFields_frame:
  "length (prefixFields flds prefix) = length flds \<and>
   (\<forall>i < length flds.
      (\<not> UsePackage (flds ! i) \<longrightarrow> prefixFields flds prefix ! i = flds ! i) \<and>
      prefixFields flds prefix ! i =
        (flds ! i)\<lparr>ProtoToGoType := ProtoToGoType (prefixFields flds prefix ! i),
                       GoToProtoType := GoToProtoType (prefixFields flds prefix ! i)\<rparr>) \<and>
   (prefix = '''' \<longrightarrow> prefixFields flds prefix = flds)"
  by (simp add: prefixFields_def length_prefixFields_loop prefixFields_loop_nth)

theorem prefixFields_frame_witness:
  "prefixFields
     [\<lparr>Name = ''ID'', ProtoName = ''Id'', ProtoToGoType = ''StringToID'',
       GoToProtoType = ''IDToString'', UsePackage = True\<rparr>,
      \<lparr>Name = ''Title'', ProtoName = ''Title'', ProtoToGoType = ''Conv'',
       GoToProtoType = ''Back'', UsePackage = False\<rparr>] ''h'' ! 1
   = \<lparr>Name = ''Title'', ProtoName = ''Title'', ProtoToGoType = ''Conv'',
       GoToProtoType = ''Back'', UsePackage = False\<rparr> \<and>
   Name (prefixFields
     [\<lparr>Name = ''ID'', ProtoName = ''Id'', ProtoToGoType = ''StringToID'',
       GoToProtoType = ''IDToString'', UsePackage = True\<rparr>,
      \<lparr>Name = ''Title'', ProtoName = ''Title'', ProtoToGoType = ''Conv'',
       GoToProtoType = ''Back'', UsePackage = False\<rparr>] ''h'' ! 0) = ''ID''"
proof -
  let ?fs = "[\<lparr>Name = ''ID'', ProtoName = ''Id'', ProtoToGoType = ''StringToID'',
       GoToProtoType = ''IDToString'', UsePackage = True\<rparr>,
      \<lparr>Name = ''Title'', ProtoName = ''Title'', ProtoToGoType = ''Conv'',
       GoToProtoType = ''Back'', UsePackage = False\<rparr>]"
  note h = prefixFields_frame [of ?fs "''h''"]
  show ?thesis using h by (simp add: prefixFields_def)
qed

section \<open>Properties of ProcessFile\<close>

text \<open>
  C3. For a file whose options lack the \<open>go_models_file_path\<close> annotation,
  \<open>ProcessFile\<close> returns the error \<open>ErrFileSkipped\<close> with the empty path and the empty
  content, and prints nothing; it does so before it dereferences any pointer.
\<close>

theorem ProcessFile_skips_without_models_path:
  assumes "file_Options f E_GoModelsFilePath = None"
  shows "ProcessFile c f packageName helperPackageName messages debug usePackageInPath =
           Inr (('''', '''', Some ErrFileSkipped), '''')"
  using assms
  by (simp add: ProcessFile_def ProcessFile_records_def modelsPath_def getStringOption_def)

theorem ProcessFile_skips_without_models_path_witness:
  "file_Options barePackageFile E_GoModelsFilePath = None \<and>
   ProcessFile shopCollaborators barePackageFile None None Map.empty True True =
     Inr (('''', '''', Some ErrFileSkipped), '''')"
proof -
  have h: "file_Options barePackageFile E_GoModelsFilePath = None"
    by (simp add: barePackageFile_def)
  from ProcessFile_skips_without_models_path [OF h] h show ?thesis
    by blast
qed

subsection \<open>The records of the message loop\<close>

lemma processMessages_records:
  assumes "processMessages c pp rp h messages structs debug ms w data = Done (w', data')"
    and "d \<in> set data'"
  shows "d \<in> set data \<or>
         (SrcFn d = ''Pb'' \<and> SrcPointer d = ''*'' \<and> SrcPref d = pp \<and> DstPref d = rp)"
  using assms
proof (induction ms arbitrary: w data)
  case Nil
  then show ?case by simp
next
  case (Cons m ms)
  obtain written flds sno r where pm: "processMessage c m messages structs debug = (written, flds, sno, r)"
    by (cases "processMessage c m messages structs debug") auto
  show ?case
  proof (cases r)
    case None
    with pm Cons.prems(1) obtain helper where hp: "h = Some helper"
      by (cases h) auto
    let ?rec = "\<lparr>Src = GetName m, SrcPref = pp, SrcFn = ''Pb'', SrcPointer = ''*'',
                  Dst = sno, DstPref = rp, DstFn = sno, Fields = prefixFields flds helper\<rparr>"
    from pm None hp Cons.prems(1)
    have "processMessages c pp rp h messages structs debug ms (w @ written) (data @ [?rec])
            = Done (w', data')"
      by simp
    from Cons.IH [OF this Cons.prems(2)] show ?thesis
      by auto
  next
    case (Some e)
    with pm Cons.prems(1) obtain msg where l: "e = LoggableError msg"
      by (cases e) auto
    with pm Some Cons.prems(1)
    have "processMessages c pp rp h messages structs debug ms
            (w @ written @ ''// '' @ msg @ ''\<newline>'') data = Done (w', data')"
      by simp
    from Cons.IH [OF this Cons.prems(2)] show ?thesis .
  qed
qed

lemma shop_records:
  "ProcessFile_records shopCollaborators shopFile (Some ''models'') (Some ''helperpkg'')
     Map.empty False =
   Done (fileHeader ''api/shop.proto'' ''shop'' ''models'' @ ''// no go_struct option\<newline>'',
         [itemRecord])"
  by (simp add: ProcessFile_records_def modelsPath_def getStringOption_def shopFile_def
        shopCollaborators_def priceMessage_def itemMessage_def GetName_def prefixFields_def
        itemRecord_def)

text \<open>
  C10. Every record that the message loop of \<open>ProcessFile\<close> builds and hands to
  \<open>execTemplate\<close> has the source function label \<open>Pb\<close> and the source pointer marker
  \<open>*\<close>; when the file lacks the \<open>go_repo_package\<close> option its destination prefix is
  \<open>repo1\<close>, and when the file lacks the \<open>go_protobuf_package\<close> option its source prefix
  is \<open>pb1\<close>.
\<close>

theorem ProcessFile_record_defaults:
  assumes "ProcessFile_records c f packageName helperPackageName messages debug = Done (w, data)"
    and "d \<in> set data"
  shows "SrcFn d = ''Pb'' \<and> SrcPointer d = ''*'' \<and>
         (file_Options f E_GoRepoPackage = None \<longrightarrow> DstPref d = ''repo1'') \<and>
         (file_Options f E_GoProtobufPackage = None \<longrightarrow> SrcPref d = ''pb1'')"
proof -
  let ?rp = "case getStringOption (file_Options f) E_GoRepoPackage of
               Inl e \<Rightarrow> ''repo1'' | Inr s \<Rightarrow> s"
  let ?pp = "case getStringOption (file_Options f) E_GoProtobufPackage of
               Inl e \<Rightarrow> ''pb1'' | Inr s \<Rightarrow> s"
  from assms(1) obtain structs w0 where
    "processMessages c ?pp ?rp helperPackageName messages structs debug
       (file_MessageType f) w0 [] = Done (w, data)"
    by (auto simp: ProcessFile_records_def Let_def split: sum.splits option.splits)
  from processMessages_records [OF this assms(2)]
  have "SrcFn d = ''Pb'' \<and> SrcPointer d = ''*'' \<and> SrcPref d = ?pp \<and> DstPref d = ?rp"
    by simp
  then show ?thesis
    by (auto simp: getStringOption_def)
qed

theorem ProcessFile_record_defaults_witness:
  "ProcessFile_records shopCollaborators shopFile (Some ''models'') (Some ''helperpkg'')
     Map.empty False =
   Done (fileHeader ''api/shop.proto'' ''shop'' ''models'' @ ''// no go_struct option\<newline>'',
         [itemRecord]) \<and>
   file_Options shopFile E_GoRepoPackage = None \<and>
   file_Options shopFile E_GoProtobufPackage = None \<and>
   SrcFn itemRecord = ''Pb'' \<and> SrcPointer itemRecord = ''*'' \<and>
   DstPref itemRecord = ''repo1'' \<and> SrcPref itemRecord = ''pb1''"
proof -
  have m: "itemRecord \<in> set [itemRecord]" by simp
  have o: "file_Options shopFile E_GoRepoPackage = None"
          "file_Options shopFile E_GoProtobufPackage = None"
    by (simp_all add: shopFile_def)
  from ProcessFile_record_defaults [OF shop_records m] shop_records o show ?thesis
    by blast
qed

subsection \<open>Errors of the message loop\<close>

lemma processMessages_append:
  "processMessages c pp rp h messages structs debug (xs @ ys) w data =
     (case processMessages c pp rp h messages structs debug xs w data of
        Done (w1, data1) \<Rightarrow> processMessages c pp rp h messages structs debug ys w1 data1
      | Panic p \<Rightarrow> Panic p
      | Abort e \<Rightarrow> Abort e)"
proof (induction xs arbitrary: w data h)
  case Nil
  then show ?case by simp
next
  case (Cons m xs)
  obtain written flds sno r where pm: "processMessage c m messages structs debug = (written, flds, sno, r)"
    by (cases "processMessage c m messages structs debug") auto
  show ?case
    by (cases r; cases h) (auto simp: pm Cons.IH split: error.splits)
qed

lemma ProcessFile_records_loop:
  assumes "modelsPath c (file_Options f) = Inr p" and "source_Parse c p = Inr structs"
    and "file_Name f = Some fileName" and "file_Package f = Some filePackage"
    and "packageName = Some dstPackage"
  shows "ProcessFile_records c f packageName helperPackageName messages debug =
           processMessages c
             (case getStringOption (file_Options f) E_GoProtobufPackage of
                Inl e \<Rightarrow> ''pb1'' | Inr s \<Rightarrow> s)
             (case getStringOption (file_Options f) E_GoRepoPackage of
                Inl e \<Rightarrow> ''repo1'' | Inr s \<Rightarrow> s)
             helperPackageName messages structs debug (file_MessageType f)
             (fileHeader fileName filePackage dstPackage @
                (if debug then debugDump c messages else ''''))
             []"
  using assms by (simp add: ProcessFile_records_def Let_def)

text \<open>
  C4. Let \<open>ProcessFile\<close> have reached its message loop, and let the loop have passed the
  messages before \<open>m\<close>, leaving the text \<open>w1\<close> in the writer and the records
  \<open>data1\<close>. If \<open>processMessage\<close> fails on \<open>m\<close> with a loggable error, the loop
  writes the comment line \<open>// \<close>, the error text and a newline after what
  \<open>processMessage\<close> wrote, adds no record, and goes on with the remaining messages. If
  it fails with any other error, \<open>ProcessFile\<close> returns that error with the empty path
  and the empty content and prints nothing.
\<close>

theorem ProcessFile_message_errors:
  assumes "modelsPath c (file_Options f) = Inr p" and "source_Parse c p = Inr structs"
    and "file_Name f = Some fileName" and "file_Package f = Some filePackage"
    and "packageName = Some dstPackage"
    and "protoPackage = (case getStringOption (file_Options f) E_GoProtobufPackage of
                           Inl e \<Rightarrow> ''pb1'' | Inr s \<Rightarrow> s)"
    and "repoPackage = (case getStringOption (file_Options f) E_GoRepoPackage of
                          Inl e \<Rightarrow> ''repo1'' | Inr s \<Rightarrow> s)"
    and "w0 = fileHeader fileName filePackage dstPackage @
                (if debug then debugDump c messages else '''')"
    and "file_MessageType f = before @ m # rest"
    and "processMessages c protoPackage repoPackage helperPackageName messages structs debug
           before w0 [] = Done (w1, data1)"
    and "processMessage c m messages structs debug = (written, flds, sno, Some e)"
  shows "(\<forall>msg. e = LoggableError msg \<longrightarrow>
            ProcessFile_records c f packageName helperPackageName messages debug =
              processMessages c protoPackage repoPackage helperPackageName messages structs
                debug rest (w1 @ written @ ''// '' @ msg @ ''\<newline>'') data1) \<and>
         (\<not> isLoggable e \<longrightarrow>
            ProcessFile c f packageName helperPackageName messages debug usePackageInPath =
              Inr (('''', '''', Some e), ''''))"
proof -
  have r: "ProcessFile_records c f packageName helperPackageName messages debug =
             processMessages c protoPackage repoPackage helperPackageName messages structs
               debug (before @ m # rest) w0 []"
    unfolding ProcessFile_records_loop [OF assms(1-5)] assms(6-9) ..
  have l: "processMessages c protoPackage repoPackage helperPackageName messages structs
             debug (before @ m # rest) w0 [] =
           processMessages c protoPackage repoPackage helperPackageName messages structs
             debug (m # rest) w1 data1"
    by (simp add: processMessages_append assms(10))
  show ?thesis
    by (cases e) (simp_all add: r l assms(11) ProcessFile_def)
qed

theorem ProcessFile_message_errors_witness:
  "ProcessFile_records shopCollaborators shopFile (Some ''models'') (Some ''helperpkg'')
     Map.empty False =
     processMessages shopCollaborators ''pb1'' ''repo1'' (Some ''helperpkg'') Map.empty ()
       False [itemMessage]
       (fileHeader ''api/shop.proto'' ''shop'' ''models'' @ '''' @
        ''// '' @ ''no go_struct option'' @ ''\<newline>'') [] \<and>
   ProcessFile failingCollaborators shopFile (Some ''models'') (Some ''helperpkg'')
     Map.empty False True =
     Inr (('''', '''', Some (OtherError ''struct not found'')), '''')"
proof -
  have a: "modelsPath shopCollaborators (file_Options shopFile) = Inr ''/work/models/shop.go''"
          "modelsPath failingCollaborators (file_Options shopFile) = Inr ''/work/models/shop.go''"
    by (simp_all add: modelsPath_def getStringOption_def shopFile_def shopCollaborators_def
          failingCollaborators_def)
  have b: "source_Parse shopCollaborators ''/work/models/shop.go'' = Inr ()"
          "source_Parse failingCollaborators ''/work/models/shop.go'' = Inr ()"
    by (simp_all add: shopCollaborators_def failingCollaborators_def)
  have n: "file_Name shopFile = Some ''api/shop.proto''" "file_Package shopFile = Some ''shop''"
    by (simp_all add: shopFile_def)
  have pp: "''pb1'' = (case getStringOption (file_Options shopFile) E_GoProtobufPackage of
                         Inl e \<Rightarrow> ''pb1'' | Inr s \<Rightarrow> s)"
    and rp: "''repo1'' = (case getStringOption (file_Options shopFile) E_GoRepoPackage of
                         Inl e \<Rightarrow> ''repo1'' | Inr s \<Rightarrow> s)"
    by (simp_all add: getStringOption_def shopFile_def)
  have w: "fileHeader ''api/shop.proto'' ''shop'' ''models'' =
             fileHeader ''api/shop.proto'' ''shop'' ''models'' @
               (if False then debugDump shopCollaborators Map.empty else '''')"
          "fileHeader ''api/shop.proto'' ''shop'' ''models'' =
             fileHeader ''api/shop.proto'' ''shop'' ''models'' @
               (if False then debugDump failingCollaborators Map.empty else '''')"
    by simp_all
  have ms: "file_MessageType shopFile = [] @ priceMessage # [itemMessage]"
    by (simp add: shopFile_def)
  have l: "processMessages shopCollaborators ''pb1'' ''repo1'' (Some ''helperpkg'') Map.empty ()
             False [] (fileHeader ''api/shop.proto'' ''shop'' ''models'') [] =
           Done (fileHeader ''api/shop.proto'' ''shop'' ''models'', [])"
          "processMessages failingCollaborators ''pb1'' ''repo1'' (Some ''helperpkg'') Map.empty ()
             False [] (fileHeader ''api/shop.proto'' ''shop'' ''models'') [] =
           Done (fileHeader ''api/shop.proto'' ''shop'' ''models'', [])"
    by simp_all
  have e1: "processMessage shopCollaborators priceMessage Map.empty () False =
              ('''', [], '''', Some (LoggableError ''no go_struct option''))"
    by (simp add: shopCollaborators_def priceMessage_def)
  have e2: "processMessage failingCollaborators priceMessage Map.empty () False =
              ('''', [], '''', Some (OtherError ''struct not found''))"
    by (simp add: failingCollaborators_def)
  note t1 = ProcessFile_message_errors [OF a(1) b(1) n refl pp rp w(1) ms l(1) e1, of True]
  note t2 = ProcessFile_message_errors [OF a(2) b(2) n refl pp rp w(2) ms l(2) e2, of True]
  from t1 t2 show ?thesis
    by (simp del: processMessages.simps)
qed

subsection \<open>The emission driver\<close>

text \<open>
  C7. When \<open>execTemplate\<close> returns without error, every record has been swapped
  exactly once, and the text written is, in the order of the records, the render of
  each record followed at once by the render of the same record with its roles
  swapped: the renders are those of \<open>renderCalls\<close>, all of them succeeded, and
  nothing else was written.
\<close>

theorem execTemplate_pairs:
  assumes "execTemplate c w data = (w', data', None)"
  shows "data' = map (swap c) data \<and>
         (data = [] \<and> w' = w \<or>
          (\<exists>t. templateWithHelpers c ''messages'' = Inr t \<and>
                w' = w @ concat (map (\<lambda>d. fst (Execute c t d)) (renderCalls c data)) \<and>
                (\<forall>d \<in> set (renderCalls c data). snd (Execute c t d) = None)))"
  using assms
proof (induction data arbitrary: w w' data')
  case Nil
  then show ?case by simp
next
  case (Cons d ds)
  from Cons.prems obtain t where t: "templateWithHelpers c ''messages'' = Inr t"
    by (cases "templateWithHelpers c ''messages''") auto
  obtain forward r1 where f: "Execute c t d = (forward, r1)"
    by (cases "Execute c t d") auto
  with t Cons.prems have r1: "r1 = None"
    by (cases r1) auto
  obtain reverse r2 where r: "Execute c t (swap c d) = (reverse, r2)"
    by (cases "Execute c t (swap c d)") auto
  with t f r1 Cons.prems have r2: "r2 = None"
    by (cases r2) auto
  obtain w2 ds2 e2 where rest: "execTemplate c (w @ forward @ reverse) ds = (w2, ds2, e2)"
    by (cases "execTemplate c (w @ forward @ reverse) ds") auto
  with t f r r1 r2 Cons.prems have eq: "w' = w2" "data' = swap c d # ds2" "e2 = None"
    by simp_all
  from rest eq have rest': "execTemplate c (w @ forward @ reverse) ds = (w2, ds2, None)"
    by simp
  note ih = Cons.IH [OF rest']
  from ih have ds2: "ds2 = map (swap c) ds" by simp
  from ih t have w2: "w2 = (w @ forward @ reverse) @
                        concat (map (\<lambda>d. fst (Execute c t d)) (renderCalls c ds))"
    and ok: "\<forall>d \<in> set (renderCalls c ds). snd (Execute c t d) = None"
    by auto
  from eq ds2 w2 ok t f r r1 r2 show ?case
    by simp
qed

text \<open>
  A rendering error ends \<open>execTemplate\<close> at once, and \<open>ProcessFile\<close> then returns
  nothing of what was written.
\<close>

lemma ProcessFile_render_error:
  assumes "ProcessFile_records c f packageName helperPackageName messages debug = Done (w, data)"
    and "execTemplate c w data = (w', data', Some e)"
  shows "ProcessFile c f packageName helperPackageName messages debug usePackageInPath =
           Inr (('''', '''', Some e), '''')"
  using assms by (simp add: ProcessFile_def)

lemma shop_execTemplate:
  "execTemplate shopCollaborators w [itemRecord] =
     (w @ ''func ItemToItemModel\<newline>'' @ ''func ItemModelToItem\<newline>'',
      [swapRoles itemRecord], None)"
  by (simp add: shopCollaborators_def itemRecord_def swapRoles_def)

theorem execTemplate_pairs_witness:
  "execTemplate shopCollaborators ''package models\<newline>'' [itemRecord] =
     (''package models\<newline>'' @ ''func ItemToItemModel\<newline>'' @ ''func ItemModelToItem\<newline>'',
      [swapRoles itemRecord], None) \<and>
   [swapRoles itemRecord] = map (swap shopCollaborators) [itemRecord] \<and>
   renderCalls shopCollaborators [itemRecord] = [itemRecord, swapRoles itemRecord]"
proof -
  note h = execTemplate_pairs [OF shop_execTemplate [of "''package models\<newline>''"]]
  have "renderCalls shopCollaborators [itemRecord] = [itemRecord, swapRoles itemRecord]"
    by (simp add: shopCollaborators_def)
  with h shop_execTemplate [of "''package models\<newline>''"] show ?thesis
    by blast
qed

subsection \<open>Determinism\<close>






subsection \<open>The destination path\<close>






















lemma plain_element:
  assumes "plainName d"
  shows "CHR ''/'' \<notin> set d" and "d \<noteq> ''''" and "d \<noteq> ''.''" and "d \<noteq> ''..''"
    and "hd ''.proto'' \<notin> set d"
  using assms by (auto simp: plainName_def)











end
